theory Spec2Isabelle
  imports Main
begin

section \<open>Python values used by cinema\_bot.py\<close>

text \<open>
  A \<open>string\<close> stands for a Python \<open>str\<close>, one \<open>char\<close> per character. The two
  fixed texts of the source that lie outside ASCII and end up in a record (the placeholder
  title and the dash shown for a missing rating) are written as their UTF-8 bytes.
\<close>

datatype exn = IndexError | KeyError | ClientError

definition py_index :: "'a list \<Rightarrow> int \<Rightarrow> nat option" where
  \<comment> \<open>\<open>xs[i]\<close>: the position read, counting from the end when \<open>i\<close> is negative;
      \<open>None\<close> is IndexError.\<close>
  "py_index xs i =
     (let n = int (length xs); j = (if i < 0 then n + i else i)
      in if 0 \<le> j \<and> j < n then Some (nat j) else None)"

definition py_slice_to :: "'a list \<Rightarrow> int \<Rightarrow> 'a list" where
  \<comment> \<open>\<open>xs[:k]\<close>\<close>
  "py_slice_to xs k = (if k < 0 then take (length xs - nat (- k)) xs else take (nat k) xs)"

definition startswith :: "string \<Rightarrow> string \<Rightarrow> bool" where
  "startswith s p = (take (length p) s = p)"

definition py_isspace :: "char \<Rightarrow> bool" where
  \<comment> \<open>the characters below 256 that \<open>str.isspace\<close> and the pattern \<open>\\s\<close> accept\<close>
  "py_isspace c = ((of_char c :: nat) \<in> {9, 10, 11, 12, 13, 28, 29, 30, 31, 32, 133, 160})"

definition py_strip_chars :: "char list \<Rightarrow> string \<Rightarrow> string" where
  \<comment> \<open>\<open>s.strip(chars)\<close>\<close>
  "py_strip_chars cs s =
     rev (dropWhile (\<lambda>c. c \<in> set cs) (rev (dropWhile (\<lambda>c. c \<in> set cs) s)))"

definition py_strip :: "string \<Rightarrow> string" where
  \<comment> \<open>\<open>s.strip()\<close>\<close>
  "py_strip s = rev (dropWhile py_isspace (rev (dropWhile py_isspace s)))"

definition no_title :: string where
  \<comment> \<open>the placeholder title of line 112, UTF-8\<close>
  "no_title = [CHR 0xD0, CHR 0x91, CHR 0xD0, CHR 0xB5, CHR 0xD0, CHR 0xB7, CHR 0x20,
     CHR 0xD0, CHR 0xBD, CHR 0xD0, CHR 0xB0, CHR 0xD0, CHR 0xB7, CHR 0xD0, CHR 0xB2,
     CHR 0xD0, CHR 0xB0, CHR 0xD0, CHR 0xBD, CHR 0xD0, CHR 0xB8, CHR 0xD1, CHR 0x8F]"

definition dash :: string where
  \<comment> \<open>the em dash of \<open>get_film_ratings\<close>, UTF-8\<close>
  "dash = [CHR 0xE2, CHR 0x80, CHR 0x94]"

definition nocover :: string where
  "nocover = ''/img/nocover.png''"

section \<open>The extractor: \<open>parse_zona_results\<close>\<close>

text \<open>
  The page fetched from the catalogue is taken as BeautifulSoup presents it to the code:
  for every \<open>li.results-item-wrap\<close> the elements and attributes that the loop of
  lines 103--153 looks up, each absent (\<open>None\<close>) or present. Texts are the results of
  \<open>get_text(strip=True)\<close>.
\<close>

record link_elem =
  href :: "string option"                   \<comment> \<open>attribute \<open>href\<close> of \<open>a.results-item\<close>\<close>
  item_title :: "string option"             \<comment> \<open>\<open>div.results-item-title\<close>\<close>
  item_year :: "string option"              \<comment> \<open>\<open>span.results-item-year\<close>\<close>
  item_rating :: "string option option"     \<comment> \<open>\<open>span.results-item-rating\<close>, its first \<open>span\<close>\<close>
  preview_style :: "string option option"   \<comment> \<open>\<open>div.result-item-preview\<close>, its \<open>style\<close>\<close>

record result_card =
  anchor :: "link_elem option"              \<comment> \<open>\<open>card.find("a", class_="results-item")\<close>\<close>
  meta_img :: "string option option"        \<comment> \<open>\<open>meta[itemprop=image]\<close>, its \<open>content\<close>\<close>

record page =
  status :: nat
  results_title :: bool                     \<comment> \<open>a \<open>div.results-title\<close> is on the page\<close>
  cards :: "result_card list"

record film =
  title :: string
  year :: string
  rating :: string
  poster_url :: "string option"
  watch_link :: "string option"
  kp_imdb :: "(string \<times> string) option"   \<comment> \<open>the keys \<open>kp\<close> and \<open>imdb\<close>, set together\<close>

definition truthy :: "string option \<Rightarrow> bool" where
  \<comment> \<open>Python's truth value of a string or \<open>None\<close>\<close>
  "truthy v = (case v of None \<Rightarrow> False | Some s \<Rightarrow> s \<noteq> [])"

definition match_at :: "string \<Rightarrow> string option" where
  \<comment> \<open>the pattern \<open>background-image:\\s*url\\(([^)]+)\\)\<close> matched at the head of the
      string; the result is group 1. Neither \<open>\\s*\<close> nor \<open>[^)]+\<close> can give back a
      character to what follows it, so the greedy match is the only one.\<close>
  "match_at s =
     (if startswith s ''background-image:'' then
        (let r = dropWhile py_isspace (drop 17 s) in
         if startswith r ''url('' then
           (let b = drop 4 r; g = takeWhile (\<lambda>c. c \<noteq> CHR '')'') b in
            if g \<noteq> [] \<and> length g < length b then Some g else None)
         else None)
      else None)"

fun re_search :: "string \<Rightarrow> string option" where
  \<comment> \<open>\<open>re.search\<close>: the leftmost position where the pattern matches\<close>
  "re_search [] = None"
| "re_search (c # cs) =
     (case match_at (c # cs) of Some g \<Rightarrow> Some g | None \<Rightarrow> re_search cs)"

definition style_url :: "link_elem \<Rightarrow> string option" where
  \<comment> \<open>lines 130--140: the URL the fallback assigns, if it assigns one\<close>
  "style_url a =
     (case preview_style a of
        Some (Some style) \<Rightarrow>
          (case re_search style of
             Some g \<Rightarrow>
               (let url = py_strip_chars [CHR 0x27, CHR 0x22, CHR '' '', CHR '',''] g
                in if url \<noteq> [] \<and> url \<noteq> nocover then Some url else None)
           | None \<Rightarrow> None)
      | _ \<Rightarrow> None)"

definition resolve_poster :: "result_card \<Rightarrow> link_elem \<Rightarrow> string option" where
  \<comment> \<open>lines 124--140\<close>
  "resolve_poster c a =
     (let poster_url = (case meta_img c of None \<Rightarrow> None | Some content \<Rightarrow> content)
      in if \<not> truthy poster_url then
           (case style_url a of Some url \<Rightarrow> Some url | None \<Rightarrow> poster_url)
         else poster_url)"

definition normalize_poster :: "string option \<Rightarrow> string option" where
  \<comment> \<open>lines 142--143\<close>
  "normalize_poster p =
     (case p of
        Some u \<Rightarrow> if u \<noteq> [] \<and> startswith u ''//'' then Some (''https:'' @ u) else Some u
      | None \<Rightarrow> None)"

definition film_of :: "string \<Rightarrow> result_card \<Rightarrow> link_elem \<Rightarrow> film" where
  \<comment> \<open>lines 108--153, for a card whose anchor was found\<close>
  "film_of base c a =
     \<lparr> title = (case item_title a of Some t \<Rightarrow> t | None \<Rightarrow> no_title),
       year = (case item_year a of Some y \<Rightarrow> y | None \<Rightarrow> []),
       rating = (case item_rating a of Some (Some r) \<Rightarrow> r | _ \<Rightarrow> ''N/A''),
       poster_url = normalize_poster (resolve_poster c a),
       watch_link = (case href a of Some h \<Rightarrow> if h \<noteq> [] then Some (base @ h) else None
                     | None \<Rightarrow> None),
       kp_imdb = None \<rparr>"

fun parse_cards :: "string \<Rightarrow> result_card list \<Rightarrow> film list" where
  \<comment> \<open>the loop of line 103; \<open>continue\<close> at line 106\<close>
  "parse_cards base [] = []"
| "parse_cards base (c # cs) =
     (case anchor c of
        None \<Rightarrow> parse_cards base cs
      | Some a \<Rightarrow> film_of base c a # parse_cards base cs)"

definition parse_zona_results :: "string \<Rightarrow> page \<Rightarrow> film list" where
  \<comment> \<open>lines 94--155, from the response on\<close>
  "parse_zona_results base pg =
     (if status pg \<noteq> 200 then []
      else if \<not> results_title pg then []
      else parse_cards base (cards pg))"

section \<open>Sessions, conversation state and the chat\<close>

record session =
  \<comment> \<open>the dictionary stored in \<open>user_data[user_id]\<close>, lines 529--535\<close>
  results :: "film list"
  current_index :: int
  query :: string
  msg_id :: "nat option"
  list_msg_id :: "nat option"

datatype ChooseFilm = waiting_for_number | confirming_choice

record fsm_ctx =
  \<comment> \<open>the FSM context of one user: the state (\<open>None\<close> outside the group) and the keys of
      its data\<close>
  fsm_state :: "ChooseFilm option"
  data_user_id :: "int option"
  data_confirm_msg_id :: "nat option"
  data_chosen_index :: "int option"

definition fsm_clear :: fsm_ctx where
  \<comment> \<open>\<open>state.clear()\<close>\<close>
  "fsm_clear = \<lparr> fsm_state = None, data_user_id = None, data_confirm_msg_id = None,
     data_chosen_index = None \<rparr>"

datatype callback = NavCallback string | ConfirmCallback string int

datatype button = Callback_button callback | Url_button "string option"

record caption =
  \<comment> \<open>the fields that the caption of lines 257--265 prints\<close>
  cap_title :: string
  cap_year :: string
  cap_kp :: string
  cap_imdb :: string
  cap_rating :: string
  cap_current :: int
  cap_total :: int
  cap_query :: string

datatype notice =
    Searching                \<comment> \<open>line 519\<close>
  | Nothing_found string     \<comment> \<open>line 524\<close>
  | Search_stale             \<comment> \<open>line 630\<close>
  | Range_prompt int         \<comment> \<open>line 671: "enter a number from 1 to \<open>{num}\<close>"\<close>
  | Number_only              \<comment> \<open>line 674\<close>
  | Only_number_of_list      \<comment> \<open>line 679\<close>

datatype body =
    Film_caption caption
  | Frozen_caption string string string string     \<comment> \<open>title, year, rating, query\<close>
  | Confirm_caption string string string           \<comment> \<open>title, year, rating\<close>
  | List_text "(nat \<times> string \<times> string) list" "int option"
      \<comment> \<open>the numbered lines (number, title, rating) and the count of the summary line\<close>
  | Notice notice

record message =
  photo :: "string option option"   \<comment> \<open>\<open>None\<close> for a text message\<close>
  body :: body
  keyboard :: "button list"

datatype toast = Ack | New_search_alert | Session_stale_alert | Choose_other

record world =
  user_data :: "int \<rightharpoonup> session"
  fsm :: "int \<Rightarrow> fsm_ctx"
  chat :: "nat \<rightharpoonup> message"          \<comment> \<open>the messages on display, by message id\<close>
  next_id :: nat                        \<comment> \<open>the id the next message sent will get\<close>
  toasts :: "toast list"                \<comment> \<open>answers to callback queries, oldest first\<close>
  stats :: "int \<times> string \<Rightarrow> nat"     \<comment> \<open>table \<open>stats\<close>: \<open>show_count\<close>, 0 for no row\<close>
  history :: "(int \<times> string) list"   \<comment> \<open>table \<open>history\<close>, without the timestamps\<close>
  fetched :: "string list"              \<comment> \<open>the detail pages requested so far, oldest first\<close>

record detail =
  \<comment> \<open>a detail page: the status, and the two spans of \<open>dd.entity-desc-value.is-rating\<close>\<close>
  d_status :: nat
  rating_dd :: "(string option \<times> string option) option"

record env =
  \<comment> \<open>the configuration and what the outside answers while one update is handled\<close>
  BASE_URL :: string
  FILMS_TO_SHOW :: int
  search_get :: "string \<Rightarrow> page option"     \<comment> \<open>the search request; \<open>None\<close>: it raises\<close>
  detail_get :: "string \<Rightarrow> detail option"   \<comment> \<open>the detail request; \<open>None\<close>: it raises\<close>
  edit_ok :: bool                               \<comment> \<open>Telegram accepts \<open>edit_message_media\<close>\<close>

record callback_query =
  cb_from :: int
  cb_has_message :: bool   \<comment> \<open>\<open>callback.message\<close> and its chat are there\<close>

record message_in =
  from_user :: "int option"
  msg_text :: "string option"

definition truthy_id :: "nat option \<Rightarrow> bool" where
  "truthy_id m = (case m of None \<Rightarrow> False | Some i \<Rightarrow> i \<noteq> 0)"

definition safe_delete :: "world \<Rightarrow> nat option \<Rightarrow> world" where
  \<comment> \<open>lines 42--48\<close>
  "safe_delete w m =
     (case m of None \<Rightarrow> w
      | Some i \<Rightarrow> if i = 0 then w else w\<lparr>chat := (chat w)(i := None)\<rparr>)"

definition send :: "world \<Rightarrow> message \<Rightarrow> nat \<times> world" where
  \<comment> \<open>\<open>send_photo\<close>, \<open>answer\<close>, \<open>answer_photo\<close>: the id of the message sent\<close>
  "send w m = (next_id w, w\<lparr>chat := (chat w)(next_id w \<mapsto> m), next_id := Suc (next_id w)\<rparr>)"

definition edit_message_media :: "env \<Rightarrow> world \<Rightarrow> nat \<Rightarrow> message \<Rightarrow> world option" where
  \<comment> \<open>\<open>None\<close>: the call raises\<close>
  "edit_message_media e w i m =
     (if edit_ok e \<and> chat w i \<noteq> None then Some (w\<lparr>chat := (chat w)(i \<mapsto> m)\<rparr>) else None)"

definition text_message :: "body \<Rightarrow> button list \<Rightarrow> message" where
  "text_message b k = \<lparr> photo = None, body = b, keyboard = k \<rparr>"

section \<open>The view model\<close>

definition build_keyboard :: "world \<Rightarrow> int \<Rightarrow> int \<Rightarrow> bool \<Rightarrow> exn + button list" where
  \<comment> \<open>lines 158--178\<close>
  "build_keyboard w user_id total_n show_list =
     (case user_data w user_id of
        None \<Rightarrow> Inl KeyError
      | Some d \<Rightarrow>
          (let current = current_index d in
           case py_index (results d) current of
             None \<Rightarrow> Inl IndexError
           | Some k \<Rightarrow>
               Inr ((if current > 0 then [Callback_button (NavCallback ''prev'')] else [])
                    @ [Url_button (watch_link (results d ! k))]
                    @ (if current < total_n - 1 then [Callback_button (NavCallback ''next'')]
                       else [])
                    @ (if total_n > 3 \<and> show_list then [Callback_button (NavCallback ''list'')]
                       else []))))"

definition get_film_ratings ::
  "env \<Rightarrow> string option \<Rightarrow> string list \<Rightarrow> (string \<times> string) \<times> string list" where
  \<comment> \<open>lines 181--219; the list is the log of pages requested\<close>
  "get_film_ratings e link reqs =
     (if \<not> truthy link then ((dash, dash), reqs)
      else
        (case link of
           None \<Rightarrow> ((dash, dash), reqs)
         | Some l \<Rightarrow>
             (case detail_get e l of
                None \<Rightarrow> ((dash, dash), reqs @ [l])
              | Some d \<Rightarrow>
                  if d_status d \<noteq> 200 then ((dash, dash), reqs @ [l])
                  else
                    (case rating_dd d of
                       None \<Rightarrow> ((dash, dash), reqs @ [l])
                     | Some (kp_span, imdb_span) \<Rightarrow>
                         (((case kp_span of Some t \<Rightarrow> t | None \<Rightarrow> dash),
                           (case imdb_span of Some t \<Rightarrow> t | None \<Rightarrow> dash)),
                          reqs @ [l])))))"

definition deliver :: "env \<Rightarrow> int \<Rightarrow> message \<Rightarrow> world \<Rightarrow> world" where
  \<comment> \<open>lines 278--305: edit the message on display, or delete it and send a new one\<close>
  "deliver e user_id m w =
     (case user_data w user_id of
        None \<Rightarrow> w
      | Some d \<Rightarrow>
          (case (if truthy_id (msg_id d)
                 then (case msg_id d of Some i \<Rightarrow> edit_message_media e w i m | None \<Rightarrow> None)
                 else None) of
             Some w' \<Rightarrow> w'
           | None \<Rightarrow>
               (let w1 = safe_delete w (msg_id d);
                    (sent, w2) = send w1 m
                in w2\<lparr>user_data := (user_data w2)(user_id \<mapsto> d\<lparr>msg_id := Some sent\<rparr>)\<rparr>)))"

definition cache_ratings :: "env \<Rightarrow> int \<Rightarrow> nat \<Rightarrow> world \<Rightarrow> world" where
  \<comment> \<open>lines 243--244, for the record at position \<open>k\<close> of the user's results\<close>
  "cache_ratings e user_id k w =
     (case user_data w user_id of
        None \<Rightarrow> w
      | Some d \<Rightarrow>
          (let result = results d ! k in
           case kp_imdb result of
             Some p \<Rightarrow> w
           | None \<Rightarrow>
               (let (p, reqs) = get_film_ratings e (watch_link result) (fetched w)
                in w\<lparr>user_data := (user_data w)(user_id \<mapsto>
                       d\<lparr>results := (results d)[k := result\<lparr>kp_imdb := Some p\<rparr>]\<rparr>),
                     fetched := reqs\<rparr>)))"

definition count_view :: "int \<Rightarrow> nat \<Rightarrow> world \<Rightarrow> world" where
  \<comment> \<open>lines 246--255\<close>
  "count_view user_id k w =
     (case user_data w user_id of
        None \<Rightarrow> w
      | Some d \<Rightarrow>
          (let result = results d ! k;
               full_title = title result
                 @ (if year result \<noteq> [] then '' ('' @ year result @ '')'' else [])
           in w\<lparr>stats := (stats w)((user_id, full_title) :=
                   Suc (stats w (user_id, full_title)))\<rparr>))"

definition film_view :: "world \<Rightarrow> int \<Rightarrow> nat \<Rightarrow> exn + message" where
  \<comment> \<open>lines 257--267 and 280--282: the caption, the keyboard and the photo\<close>
  "film_view w user_id k =
     (case user_data w user_id of
        None \<Rightarrow> Inl KeyError
      | Some d \<Rightarrow>
          (let result = results d ! k;
               current = current_index d + 1;
               total_n = int (length (results d))
           in case kp_imdb result of
                None \<Rightarrow> Inl KeyError
              | Some p \<Rightarrow>
                  (case build_keyboard w user_id total_n True of
                     Inl x \<Rightarrow> Inl x
                   | Inr kb \<Rightarrow>
                       Inr \<lparr> photo = Some (poster_url result),
                             body = Film_caption
                               \<lparr> cap_title = title result, cap_year = year result,
                                 cap_kp = fst p, cap_imdb = snd p,
                                 cap_rating = rating result, cap_current = current,
                                 cap_total = total_n, cap_query = query d \<rparr>,
                             keyboard = kb \<rparr>)))"

definition show_current_film :: "env \<Rightarrow> bool \<Rightarrow> int \<Rightarrow> world \<Rightarrow> exn option \<times> world" where
  \<comment> \<open>lines 222--305; the flag says that the update carries a chat (lines 269--276)\<close>
  "show_current_film e has_chat user_id w =
     (case user_data w user_id of
        None \<Rightarrow> (Some KeyError, w)
      | Some d \<Rightarrow>
          (case py_index (results d) (current_index d) of
             None \<Rightarrow> (Some IndexError, w)
           | Some k \<Rightarrow>
               (let w1 = count_view user_id k (cache_ratings e user_id k w) in
                case film_view w1 user_id k of
                  Inl x \<Rightarrow> (Some x, w1)
                | Inr m \<Rightarrow>
                    if \<not> has_chat then (None, w1) else (None, deliver e user_id m w1))))"

definition list_line :: "film \<Rightarrow> string" where
  \<comment> \<open>lines 316--320\<close>
  "list_line res =
     (let t = title res @ (if year res \<noteq> [] then '' ('' @ year res @ '')'' else [])
      in if length t > 80 then take 77 t @ ''...'' else t)"

definition show_list_variants :: "env \<Rightarrow> int \<Rightarrow> world \<Rightarrow> exn option \<times> world" where
  \<comment> \<open>lines 312--341; the caller has checked that the callback carries a message\<close>
  "show_list_variants e user_id w =
     (case user_data w user_id of
        None \<Rightarrow> (Some KeyError, w)
      | Some d \<Rightarrow>
          (let shown = py_slice_to (results d) (FILMS_TO_SHOW e);
               numbered = map (\<lambda>(i, res). (i, list_line res, rating res)) (enumerate 1 shown);
               more = (if int (length (results d)) > FILMS_TO_SHOW e
                       then Some (int (length (results d)) - FILMS_TO_SHOW e) else None);
               w1 = safe_delete w (list_msg_id d);
               (sent, w2) = send w1 (text_message (List_text numbered more)
                                       [Callback_button (NavCallback ''close_list'')])
           in (None,
               w2\<lparr>user_data := (user_data w2)(user_id \<mapsto> d\<lparr>list_msg_id := Some sent\<rparr>),
                  fsm := (fsm w2)(user_id :=
                    \<lparr> fsm_state = Some waiting_for_number, data_user_id = Some user_id,
                      data_confirm_msg_id = None, data_chosen_index = None \<rparr>)\<rparr>)))"

section \<open>The handlers\<close>

definition retire :: "env \<Rightarrow> int \<Rightarrow> session \<Rightarrow> world \<Rightarrow> world" where
  \<comment> \<open>lines 476--509: the session that a new search replaces. Whatever the \<open>try\<close>
      raises, the missing record included, is caught at line 506.\<close>
  "retire e user_id old w =
     (let w1 = safe_delete w (list_msg_id old);
          w2 = (if truthy_id (msg_id old) then
                  (case py_index (results old) (current_index old) of
                     None \<Rightarrow> safe_delete w1 (msg_id old)
                   | Some k \<Rightarrow>
                       (let old_result = results old ! k;
                            m = \<lparr> photo = Some (poster_url old_result),
                                  body = Frozen_caption (title old_result) (year old_result)
                                           (rating old_result) (query old),
                                  keyboard = [Url_button (watch_link old_result)] \<rparr>
                        in case (case msg_id old of Some i \<Rightarrow> edit_message_media e w1 i m
                                 | None \<Rightarrow> None) of
                             Some w' \<Rightarrow> w'
                           | None \<Rightarrow> safe_delete w1 (msg_id old)))
                else w1)
      in w2\<lparr>user_data := (user_data w2)(user_id := None)\<rparr>)"

definition replace_session :: "env \<Rightarrow> int \<Rightarrow> string \<Rightarrow> world \<Rightarrow> world" where
  \<comment> \<open>lines 471--517: the state cleared, the old session retired, the query recorded\<close>
  "replace_session e user_id q w =
     (let w0 = w\<lparr>fsm := (fsm w)(user_id := fsm_clear)\<rparr>;
          w1 = (case user_data w0 user_id of
                  None \<Rightarrow> w0
                | Some old \<Rightarrow> retire e user_id old w0)
      in w1\<lparr>history := history w1 @ [(user_id, q)]\<rparr>)"

definition handle_search :: "env \<Rightarrow> message_in \<Rightarrow> world \<Rightarrow> exn option \<times> world" where
  \<comment> \<open>lines 466--537, for a text that is no command, from a user whose state is \<open>None\<close>\<close>
  "handle_search e m w =
     (case from_user m of
        None \<Rightarrow> (None, w)
      | Some user_id \<Rightarrow>
          if \<not> truthy (msg_text m) then (None, w)
          else
            (let q = py_strip (case msg_text m of Some t \<Rightarrow> t | None \<Rightarrow> []);
                 w2 = replace_session e user_id q w;
                 (searching, w3) = send w2 (text_message (Notice Searching) [])
             in case search_get e q of
                  None \<Rightarrow> (Some ClientError, w3)
                | Some pg \<Rightarrow>
                    (let found = parse_zona_results (BASE_URL e) pg;
                         w4 = w3\<lparr>chat := (chat w3)(searching := None)\<rparr>
                     in if found = [] then
                          (None, snd (send w4 (text_message (Notice (Nothing_found q)) [])))
                        else
                          show_current_film e True user_id
                            (w4\<lparr>user_data := (user_data w4)(user_id \<mapsto>
                                  \<lparr> results = found, current_index = 0, query = q,
                                    msg_id = None, list_msg_id = None \<rparr>)\<rparr>))))"

definition set_current_index :: "int \<Rightarrow> int \<Rightarrow> world \<Rightarrow> world" where
  \<comment> \<open>\<open>user_data[user_id]["current_index"] = i\<close>\<close>
  "set_current_index user_id i w =
     (case user_data w user_id of
        None \<Rightarrow> w
      | Some d \<Rightarrow> w\<lparr>user_data := (user_data w)(user_id \<mapsto> d\<lparr>current_index := i\<rparr>)\<rparr>)"

definition drop_list_message :: "int \<Rightarrow> world \<Rightarrow> world" where
  \<comment> \<open>lines 569--571 and 596--598\<close>
  "drop_list_message user_id w =
     (case user_data w user_id of
        None \<Rightarrow> w
      | Some d \<Rightarrow>
          if truthy_id (list_msg_id d) then
            (let w1 = safe_delete w (list_msg_id d)
             in w1\<lparr>user_data := (user_data w1)(user_id \<mapsto> d\<lparr>list_msg_id := None\<rparr>)\<rparr>)
          else w)"

definition handle_navigation ::
  "env \<Rightarrow> callback_query \<Rightarrow> string \<Rightarrow> world \<Rightarrow> exn option \<times> world" where
  \<comment> \<open>lines 540--576; the string is \<open>callback_data.action\<close>. No filter looks at the
      state: the handler runs for every \<open>NavCallback\<close>.\<close>
  "handle_navigation e callback action w =
     (if \<not> cb_has_message callback then (None, w)
      else
        (let user_id = cb_from callback in
         case user_data w user_id of
           None \<Rightarrow> (None, w\<lparr>toasts := toasts w @ [New_search_alert]\<rparr>)
         | Some d \<Rightarrow>
             if action = ''prev'' then
               show_current_film e True user_id
                 (set_current_index user_id (current_index d - 1) w)
             else if action = ''next'' then
               show_current_film e True user_id
                 (set_current_index user_id (current_index d + 1) w)
             else if action = ''list'' then
               show_list_variants e user_id (w\<lparr>toasts := toasts w @ [Ack]\<rparr>)
             else if action = ''close_list'' then
               (let w1 = drop_list_message user_id (w\<lparr>toasts := toasts w @ [Ack]\<rparr>)
                in (None, w1\<lparr>fsm := (fsm w1)(user_id := fsm_clear)\<rparr>))
             else show_current_film e True user_id w))"

definition confirm_yes ::
  "env \<Rightarrow> callback_query \<Rightarrow> int \<Rightarrow> world \<Rightarrow> exn option \<times> world" where
  \<comment> \<open>lines 579--607; the integer is \<open>callback_data.index\<close>\<close>
  "confirm_yes e callback index w =
     (if \<not> cb_has_message callback then (None, w)
      else
        (let state_data = fsm w (cb_from callback);
             user_id = cb_from callback
         in case user_data w user_id of
              None \<Rightarrow>
                (None, w\<lparr>toasts := toasts w @ [Session_stale_alert],
                          fsm := (fsm w)(user_id := fsm_clear)\<rparr>)
            | Some d \<Rightarrow>
                (let chosen_index = index;
                     w1 = drop_list_message user_id w;
                     w2 = safe_delete w1 (data_confirm_msg_id state_data);
                     w3 = set_current_index user_id chosen_index w2;
                     w4 = w3\<lparr>fsm := (fsm w3)(user_id := fsm_clear)\<rparr>
                 in case show_current_film e True user_id w4 of
                      (Some x, w5) \<Rightarrow> (Some x, w5)
                    | (None, w5) \<Rightarrow> (None, w5\<lparr>toasts := toasts w5 @ [Ack]\<rparr>))))"

definition confirm_no :: "callback_query \<Rightarrow> world \<Rightarrow> world" where
  \<comment> \<open>lines 610--619\<close>
  "confirm_no callback w =
     (if \<not> cb_has_message callback then w
      else
        (let user_id = cb_from callback;
             w1 = safe_delete w (data_confirm_msg_id (fsm w user_id));
             w2 = w1\<lparr>toasts := toasts w1 @ [Choose_other]\<rparr>
         in w2\<lparr>fsm := (fsm w2)(user_id :=
                 (fsm w2 user_id)\<lparr>fsm_state := Some waiting_for_number\<rparr>)\<rparr>))"

definition is_digit :: "char \<Rightarrow> bool" where
  "is_digit c = (48 \<le> (of_char c :: nat) \<and> (of_char c :: nat) \<le> 57)"

definition digits_value :: "string \<Rightarrow> nat" where
  "digits_value ds = foldl (\<lambda>a c. 10 * a + (of_char c - 48)) 0 ds"

definition py_int :: "string \<Rightarrow> int option" where
  \<comment> \<open>\<open>int(s)\<close> for a decimal numeral with an optional sign, blanks around it allowed;
      \<open>None\<close> is ValueError. (Digit grouping with underscores is not modelled; no text
      with an underscore passes the filter of the handler that calls \<open>int\<close>.)\<close>
  "py_int s =
     (let t = py_strip s;
          neg = (t \<noteq> [] \<and> hd t = CHR ''-'');
          ds = (if t \<noteq> [] \<and> (hd t = CHR ''-'' \<or> hd t = CHR ''+'') then tl t else t)
      in if ds \<noteq> [] \<and> list_all is_digit ds
         then Some (if neg then - int (digits_value ds) else int (digits_value ds))
         else None)"

definition number_filter :: "string \<Rightarrow> bool" where
  \<comment> \<open>\<open>F.text.regexp(r"^\\d+$")\<close>: digits, then at most one line feed\<close>
  "number_filter t =
     (let ds = (if t \<noteq> [] \<and> last t = CHR 0x0A then butlast t else t)
      in ds \<noteq> [] \<and> list_all is_digit ds)"

definition handle_number_choice ::
  "env \<Rightarrow> int \<Rightarrow> string option \<Rightarrow> world \<Rightarrow> world" where
  \<comment> \<open>lines 622--674; the integer is the sender, whose FSM context \<open>state\<close> is\<close>
  "handle_number_choice e sender txt w =
     (if \<not> truthy txt then w
      else
        (let state_data = fsm w sender;
             user_id = data_user_id state_data
         in case (case user_id of None \<Rightarrow> None | Some u \<Rightarrow> user_data w u) of
              None \<Rightarrow>
                (let w1 = snd (send w (text_message (Notice Search_stale) []))
                 in w1\<lparr>fsm := (fsm w1)(sender := fsm_clear)\<rparr>)
            | Some d \<Rightarrow>
                (case py_int (case txt of Some t \<Rightarrow> t | None \<Rightarrow> []) of
                   None \<Rightarrow> snd (send w (text_message (Notice Number_only) []))
                 | Some n \<Rightarrow>
                     (let num = n - 1 in
                      if 0 \<le> num \<and> num < int (length (results d)) then
                        (let selected = results d ! nat num;
                             (confirm_msg, w1) = send w
                               \<lparr> photo = Some (poster_url selected),
                                 body = Confirm_caption (title selected) (year selected)
                                          (rating selected),
                                 keyboard = [Callback_button (ConfirmCallback ''yes'' num),
                                             Callback_button (ConfirmCallback ''no'' num)] \<rparr>
                         in w1\<lparr>fsm := (fsm w1)(sender :=
                                 (fsm w1 sender)\<lparr>fsm_state := Some confirming_choice,
                                   data_confirm_msg_id := Some confirm_msg,
                                   data_chosen_index := Some num\<rparr>)\<rparr>)
                      else snd (send w (text_message (Notice (Range_prompt num)) []))))))"

definition handle_invalid :: "world \<Rightarrow> world" where
  \<comment> \<open>lines 677--679\<close>
  "handle_invalid w = snd (send w (text_message (Notice Only_number_of_list) []))"

definition waiting_for_number_message ::
  "env \<Rightarrow> int \<Rightarrow> string option \<Rightarrow> world \<Rightarrow> world" where
  \<comment> \<open>the two handlers registered for the state \<open>waiting_for_number\<close>, in their order,
      for a message that is none of the five commands\<close>
  "waiting_for_number_message e sender txt w =
     (case txt of
        Some t \<Rightarrow>
          if number_filter t then handle_number_choice e sender txt w else handle_invalid w
      | None \<Rightarrow> handle_invalid w)"

definition in_bounds :: "session \<Rightarrow> bool" where
  \<comment> \<open>the invariant of the data model\<close>
  "in_bounds d = (0 \<le> current_index d \<and> current_index d < int (length (results d)))"

definition ratings_for :: "env \<Rightarrow> film \<Rightarrow> string list \<Rightarrow> (string \<times> string)" where
  \<comment> \<open>the pair that a record carries once it has been displayed\<close>
  "ratings_for e r reqs =
     (case kp_imdb r of Some q \<Rightarrow> q | None \<Rightarrow> fst (get_film_ratings e (watch_link r) reqs))"

section \<open>Sample inputs\<close>

definition demo_anchor :: link_elem where
  "demo_anchor = \<lparr> href = Some ''/movies/matrix'', item_title = Some ''Matrix'',
     item_year = Some ''1999'', item_rating = Some (Some ''8.1''),
     preview_style = Some (Some ''background-image: url(//img.example.com/x.jpg)'') \<rparr>"

definition demo_card :: result_card where
  "demo_card = \<lparr> anchor = Some demo_anchor, meta_img = None \<rparr>"

definition bare_card :: result_card where
  "bare_card = \<lparr> anchor = None, meta_img = Some (Some ''//img.example.com/y.jpg'') \<rparr>"

definition demo_page :: "result_card list \<Rightarrow> page" where
  "demo_page cs = \<lparr> status = 200, results_title = True, cards = cs \<rparr>"


definition tap :: callback_query where
  "tap = \<lparr> cb_from = 7, cb_has_message = True \<rparr>"

definition typed :: "string \<Rightarrow> message_in" where
  "typed t = \<lparr> from_user = Some 7, msg_text = Some t \<rparr>"

definition demo_env :: env where
  "demo_env = \<lparr> BASE_URL = ''https://zona.example'', FILMS_TO_SHOW = 10,
     search_get = (\<lambda>q. if q = ''matrix''
                         then Some (demo_page [demo_card, demo_card, demo_card, demo_card, demo_card])
                       else if q = ''dune'' then Some (demo_page [demo_card, demo_card])
                       else None),
     detail_get = (\<lambda>l. Some \<lparr> d_status = 200, rating_dd = Some (Some ''8.5'', Some ''8.7'') \<rparr>),
     edit_ok = True \<rparr>"

definition init_world :: world where
  "init_world = \<lparr> user_data = Map.empty, fsm = (\<lambda>u. fsm_clear), chat = Map.empty,
     next_id = 1, toasts = [], stats = (\<lambda>k. 0), history = [], fetched = [] \<rparr>"

definition matrix_world :: world where
  \<comment> \<open>after the search for "matrix": five records, the first on display\<close>
  "matrix_world = snd (handle_search demo_env (typed ''matrix'') init_world)"

definition list_world :: world where
  \<comment> \<open>after the list button: the list on display, a number awaited\<close>
  "list_world = snd (handle_navigation demo_env tap ''list'' matrix_world)"

definition stale_world :: world where
  \<comment> \<open>the fifth record chosen but not confirmed, the list closed, then a search for
      "dune" with two records: the confirmation buttons of the old session are still there\<close>
  "stale_world =
     snd (handle_search demo_env (typed ''dune'')
       (snd (handle_navigation demo_env tap ''close_list''
         (waiting_for_number_message demo_env 7 (Some ''5'') list_world))))"

definition next_world :: world where
  \<comment> \<open>after "next" in \<open>matrix_world\<close>: the second record on display\<close>
  "next_world = snd (handle_navigation demo_env tap ''next'' matrix_world)"

definition down_env :: env where
  \<comment> \<open>the catalogue out of reach\<close>
  "down_env = demo_env\<lparr>detail_get := (\<lambda>l. None), search_get := (\<lambda>q. None)\<rparr>"

definition dune_world :: world where
  \<comment> \<open>after a search for "dune" from scratch: two records, the first on display\<close>
  "dune_world = snd (handle_search demo_env (typed ''dune'') init_world)"

section \<open>What the display of a record changes\<close>

lemma py_index_bounds: "py_index xs i = Some k \<Longrightarrow> k < length xs"
  by (auto simp: py_index_def Let_def split: if_splits)


lemma py_index_length_cong:
  "length ys = length xs \<Longrightarrow> py_index ys i = py_index xs i"
  by (simp add: py_index_def)

lemma send_simps [simp]:
  "fst (send w m) = next_id w"
  "user_data (snd (send w m)) = user_data w"
  "fsm (snd (send w m)) = fsm w"
  "fetched (snd (send w m)) = fetched w"
  "next_id (snd (send w m)) = Suc (next_id w)"
  "chat (snd (send w m)) = (chat w)(next_id w \<mapsto> m)"
  by (simp_all add: send_def)

lemma safe_delete_simps [simp]:
  "user_data (safe_delete w i) = user_data w"
  "fsm (safe_delete w i) = fsm w"
  "fetched (safe_delete w i) = fetched w"
  "next_id (safe_delete w i) = next_id w"
  by (simp_all add: safe_delete_def split: option.splits)


lemma edit_simps:
  "edit_message_media e w i m = Some w' \<Longrightarrow>
     user_data w' = user_data w \<and> fsm w' = fsm w \<and> fetched w' = fetched w \<and> next_id w' = next_id w
     \<and> chat w' = (chat w)(i \<mapsto> m) \<and> chat w i \<noteq> None"
  by (auto simp: edit_message_media_def split: if_splits)

lemma deliver_frame [simp]:
  "fsm (deliver e u m w) = fsm w" "fetched (deliver e u m w) = fetched w"
  by (auto simp: deliver_def Let_def split_def dest: edit_simps split: option.splits if_splits)

lemma deliver_session:
  assumes "user_data w u = Some d"
  shows "\<exists>i. user_data (deliver e u m w) = (user_data w)(u \<mapsto> d\<lparr>msg_id := Some i\<rparr>)
             \<and> chat (deliver e u m w) i = Some m"
proof (cases "if truthy_id (msg_id d)
                 then (case msg_id d of Some i \<Rightarrow> edit_message_media e w i m | None \<Rightarrow> None)
                 else None")
  case None
  with assms show ?thesis
    by (intro exI [of _ "next_id w"]) (simp add: deliver_def Let_def split_def)
next
  case (Some w')
  then obtain i where i: "msg_id d = Some i" "edit_message_media e w i m = Some w'"
    by (auto split: if_splits option.splits)
  from Some assms have "deliver e u m w = w'"
    by (simp add: deliver_def)
  moreover have "d\<lparr>msg_id := Some i\<rparr> = d"
    using i(1) by (cases d) simp
  ultimately show ?thesis
    using edit_simps [OF i(2)] assms by (intro exI [of _ i]) (simp add: map_upd_triv)
qed


lemma cache_ratings_frame [simp]:
  "fsm (cache_ratings e u k w) = fsm w"
  "chat (cache_ratings e u k w) = chat w"
  "next_id (cache_ratings e u k w) = next_id w"
  by (simp_all add: cache_ratings_def Let_def split_def split: option.splits)

lemma cache_ratings_session:
  assumes "user_data w u = Some d"
  shows "user_data (cache_ratings e u k w)
        = (user_data w)(u \<mapsto> d\<lparr>results := (results d)[k :=
             (results d ! k)\<lparr>kp_imdb := Some (ratings_for e (results d ! k) (fetched w))\<rparr>]\<rparr>)"
proof (cases "kp_imdb (results d ! k)")
  case None
  with assms show ?thesis
    by (simp add: cache_ratings_def Let_def split_def ratings_for_def)
next
  case (Some q)
  have "(results d ! k)\<lparr>kp_imdb := Some q\<rparr> = results d ! k"
    using Some by (cases "results d ! k") simp
  then have "d\<lparr>results := (results d)[k := (results d ! k)\<lparr>kp_imdb := Some q\<rparr>]\<rparr> = d"
    by (cases d) simp
  with assms Some show ?thesis
    by (simp add: cache_ratings_def Let_def ratings_for_def map_upd_triv)
qed

lemma cache_ratings_fetched:
  assumes "user_data w u = Some d"
  shows "fetched (cache_ratings e u k w)
        = (case kp_imdb (results d ! k) of Some q \<Rightarrow> fetched w
           | None \<Rightarrow> snd (get_film_ratings e (watch_link (results d ! k)) (fetched w)))"
  using assms by (simp add: cache_ratings_def Let_def split_def split: option.splits)

lemma count_view_frame [simp]:
  "user_data (count_view u k w) = user_data w"
  "fsm (count_view u k w) = fsm w"
  "chat (count_view u k w) = chat w"
  "next_id (count_view u k w) = next_id w"
  "fetched (count_view u k w) = fetched w"
  by (simp_all add: count_view_def Let_def split: option.splits)

lemma build_keyboard_ok:
  assumes "user_data w u = Some d" "py_index (results d) (current_index d) = Some k"
  shows "build_keyboard w u n sl =
     Inr ((if current_index d > 0 then [Callback_button (NavCallback ''prev'')] else [])
          @ [Url_button (watch_link (results d ! k))]
          @ (if current_index d < n - 1 then [Callback_button (NavCallback ''next'')] else [])
          @ (if n > 3 \<and> sl then [Callback_button (NavCallback ''list'')] else []))"
  using assms by (simp add: build_keyboard_def Let_def)

lemma show_current_film_raises:
  assumes "user_data w u = Some d" "py_index (results d) (current_index d) = None"
  shows "show_current_film e b u w = (Some IndexError, w)"
  using assms by (simp add: show_current_film_def)

lemma show_current_film_ok:
  assumes ud: "user_data w u = Some d"
    and k: "py_index (results d) (current_index d) = Some k"
  shows "\<exists>kb. show_current_film e True u w
          = (None, deliver e u
               \<lparr> photo = Some (poster_url (results d ! k)),
                 body = Film_caption
                   \<lparr> cap_title = title (results d ! k), cap_year = year (results d ! k),
                     cap_kp = fst (ratings_for e (results d ! k) (fetched w)),
                     cap_imdb = snd (ratings_for e (results d ! k) (fetched w)),
                     cap_rating = rating (results d ! k),
                     cap_current = current_index d + 1,
                     cap_total = int (length (results d)), cap_query = query d \<rparr>,
                 keyboard = kb \<rparr>
               (count_view u k (cache_ratings e u k w)))
        \<and> build_keyboard w u (int (length (results d))) True = Inr kb"
proof -
  let ?r = "(results d ! k)\<lparr>kp_imdb := Some (ratings_for e (results d ! k) (fetched w))\<rparr>"
  let ?d1 = "d\<lparr>results := (results d)[k := ?r]\<rparr>"
  let ?w1 = "count_view u k (cache_ratings e u k w)"
  have kl: "k < length (results d)" using k by (rule py_index_bounds)
  have ud1: "user_data ?w1 u = Some ?d1"
    using ud by (simp add: cache_ratings_session)
  have k1: "py_index (results ?d1) (current_index ?d1) = Some k"
    using k by (simp add: py_index_def)
  have r1: "results ?d1 ! k = ?r" using kl by simp
  from build_keyboard_ok [OF ud k] obtain kb where
    kb: "build_keyboard w u (int (length (results d))) True = Inr kb" by blast
  have kb1: "build_keyboard ?w1 u (int (length (results d))) True = Inr kb"
    using kb kl unfolding build_keyboard_ok [OF ud k] build_keyboard_ok [OF ud1 k1]
    by simp
  show ?thesis
    using ud k kb kb1 kl
    by (simp add: show_current_film_def Let_def film_view_def cache_ratings_session)
qed

lemma show_current_film_effect:
  assumes ud: "user_data w u = Some d"
    and k: "py_index (results d) (current_index d) = Some k"
  shows "\<exists>i m. fst (show_current_film e True u w) = None
      \<and> user_data (snd (show_current_film e True u w))
          = (user_data w)(u \<mapsto> d\<lparr>results := (results d)[k :=
               (results d ! k)\<lparr>kp_imdb := Some (ratings_for e (results d ! k) (fetched w))\<rparr>],
               msg_id := Some i\<rparr>)
      \<and> chat (snd (show_current_film e True u w)) i = Some m
      \<and> build_keyboard w u (int (length (results d))) True = Inr (keyboard m)
      \<and> body m = Film_caption
                   \<lparr> cap_title = title (results d ! k), cap_year = year (results d ! k),
                     cap_kp = fst (ratings_for e (results d ! k) (fetched w)),
                     cap_imdb = snd (ratings_for e (results d ! k) (fetched w)),
                     cap_rating = rating (results d ! k),
                     cap_current = current_index d + 1,
                     cap_total = int (length (results d)), cap_query = query d \<rparr>"
proof -
  let ?r = "(results d ! k)\<lparr>kp_imdb := Some (ratings_for e (results d ! k) (fetched w))\<rparr>"
  let ?d1 = "d\<lparr>results := (results d)[k := ?r]\<rparr>"
  let ?w1 = "count_view u k (cache_ratings e u k w)"
  from show_current_film_ok [OF ud k, of e] obtain kb m where
    eq: "show_current_film e True u w = (None, deliver e u m ?w1)"
    and kb: "build_keyboard w u (int (length (results d))) True = Inr kb"
    and m: "keyboard m = kb" "body m = Film_caption
                   \<lparr> cap_title = title (results d ! k), cap_year = year (results d ! k),
                     cap_kp = fst (ratings_for e (results d ! k) (fetched w)),
                     cap_imdb = snd (ratings_for e (results d ! k) (fetched w)),
                     cap_rating = rating (results d ! k),
                     cap_current = current_index d + 1,
                     cap_total = int (length (results d)), cap_query = query d \<rparr>"
    by force
  have ud1: "user_data ?w1 u = Some ?d1"
    using ud by (simp add: cache_ratings_session)
  from deliver_session [OF ud1, of e m] obtain i where
    i: "user_data (deliver e u m ?w1) = (user_data ?w1)(u \<mapsto> ?d1\<lparr>msg_id := Some i\<rparr>)"
       "chat (deliver e u m ?w1) i = Some m"
    by blast
  show ?thesis
    using eq kb m i ud
    by (intro exI [of _ i] exI [of _ m]) (simp add: cache_ratings_session)
qed

lemma show_current_film_fsm [simp]: "fsm (snd (show_current_film e b u w)) = fsm w"
  by (simp add: show_current_film_def Let_def split: option.splits sum.splits)

lemma show_current_film_fetched:
  assumes "user_data w u = Some d" "py_index (results d) (current_index d) = Some k"
  shows "fetched (snd (show_current_film e True u w))
      = (case kp_imdb (results d ! k) of Some q \<Rightarrow> fetched w
         | None \<Rightarrow> snd (get_film_ratings e (watch_link (results d ! k)) (fetched w)))"
  using show_current_film_ok [OF assms, of e] assms(1)
  by (auto simp: cache_ratings_fetched)

section \<open>The extractor skips entries without an anchor\<close>

lemma parse_cards_filter:
  "parse_cards base (filter (\<lambda>c. anchor c \<noteq> None) cs) = parse_cards base cs"
  by (induction cs) (auto split: option.splits)

lemma parse_cards_origin:
  "f \<in> set (parse_cards base cs) \<Longrightarrow>
   \<exists>c \<in> set cs. \<exists>a. anchor c = Some a \<and> f = film_of base c a"
  by (induction cs) (auto split: option.splits)

text \<open>
  An entry may lack the link itself, the \<open>a.results-item\<close> element, and then the loop
  goes on to the next entry; or it may have the element without a (non-empty) \<open>href\<close>, and
  then it yields a record whose \<open>watch_link\<close> is \<open>None\<close>, the absent watch link of the data
  model.
\<close>

lemma anchor_without_href_kept:
  "anchor c = Some a \<Longrightarrow> href a = None \<or> href a = Some [] \<Longrightarrow>
   parse_cards base [c] = [film_of base c a] \<and> watch_link (film_of base c a) = None"
  by (auto simp: film_of_def)

text \<open>
  C7. Result entries without a link target, that is without the anchor element in which
  the code looks up everything else, are skipped: every record of the output is built from
  an entry of the page that has the anchor, and deleting the entries without one from the
  page leaves the output as it is.
\<close>

theorem entries_without_anchor_skipped:
  "(\<forall>f \<in> set (parse_zona_results base pg).
      \<exists>c \<in> set (cards pg). \<exists>a. anchor c = Some a \<and> f = film_of base c a)
   \<and> parse_zona_results base (pg\<lparr>cards := filter (\<lambda>c. anchor c \<noteq> None) (cards pg)\<rparr>)
       = parse_zona_results base pg"
proof (intro conjI ballI)
  fix f
  assume "f \<in> set (parse_zona_results base pg)"
  then have "f \<in> set (parse_cards base (cards pg))"
    by (simp add: parse_zona_results_def split: if_splits)
  then show "\<exists>c \<in> set (cards pg). \<exists>a. anchor c = Some a \<and> f = film_of base c a"
    by (rule parse_cards_origin)
next
  show "parse_zona_results base (pg\<lparr>cards := filter (\<lambda>c. anchor c \<noteq> None) (cards pg)\<rparr>)
       = parse_zona_results base pg"
    by (simp add: parse_zona_results_def parse_cards_filter del: not_None_eq)
qed

theorem entries_without_anchor_skipped_witness:
  "parse_zona_results ''https://zona.example'' (demo_page [bare_card, demo_card, bare_card])
     = [film_of ''https://zona.example'' demo_card demo_anchor]
   \<and> parse_zona_results ''https://zona.example'' (demo_page [demo_card])
     = parse_zona_results ''https://zona.example'' (demo_page [bare_card, demo_card, bare_card])"
  using entries_without_anchor_skipped
    [of "''https://zona.example''" "demo_page [bare_card, demo_card, bare_card]"]
  by (simp add: parse_zona_results_def demo_page_def bare_card_def demo_card_def)

section \<open>Poster URLs\<close>







section \<open>The view of a record and its ratings\<close>



text \<open>
  C8. A display leaves the pair of ratings on the record it shows: the pair the record
  carried already or, when it carried none, the pair \<open>get_film_ratings\<close> returned. A record
  that carries a pair keeps it through every display, of itself or of another record; and
  the display of a record that carries a pair requests no page (the log of requests stays
  as it was) and shows that pair in the caption.
\<close>

theorem displayed_ratings_cached:
  assumes "user_data w u = Some d" "py_index (results d) (current_index d) = Some k"
  shows "\<exists>d1 i m. user_data (snd (show_current_film e True u w)) u = Some d1
      \<and> length (results d1) = length (results d)
      \<and> kp_imdb (results d1 ! k) = Some (ratings_for e (results d ! k) (fetched w))
      \<and> (\<forall>j q. j < length (results d) \<longrightarrow> kp_imdb (results d ! j) = Some q
            \<longrightarrow> kp_imdb (results d1 ! j) = Some q)
      \<and> (\<forall>q. kp_imdb (results d ! k) = Some q \<longrightarrow>
            fetched (snd (show_current_film e True u w)) = fetched w
            \<and> ratings_for e (results d ! k) (fetched w) = q)
      \<and> msg_id d1 = Some i \<and> chat (snd (show_current_film e True u w)) i = Some m
      \<and> (\<exists>c. body m = Film_caption c
            \<and> (cap_kp c, cap_imdb c) = ratings_for e (results d ! k) (fetched w))"
proof -
  have kl: "k < length (results d)" using assms(2) by (rule py_index_bounds)
  from show_current_film_effect [OF assms, of e]
  obtain i m where
    ud: "user_data (snd (show_current_film e True u w)) = (user_data w)(u \<mapsto> d\<lparr>results := (results d)[k :=
               (results d ! k)\<lparr>kp_imdb := Some (ratings_for e (results d ! k) (fetched w))\<rparr>],
               msg_id := Some i\<rparr>)"
    and m: "chat (snd (show_current_film e True u w)) i = Some m"
    "body m = Film_caption
                   \<lparr> cap_title = title (results d ! k), cap_year = year (results d ! k),
                     cap_kp = fst (ratings_for e (results d ! k) (fetched w)),
                     cap_imdb = snd (ratings_for e (results d ! k) (fetched w)),
                     cap_rating = rating (results d ! k),
                     cap_current = current_index d + 1,
                     cap_total = int (length (results d)), cap_query = query d \<rparr>"
    by blast
  have keep: "kp_imdb ((results d)[k := (results d ! k)\<lparr>kp_imdb :=
         Some (ratings_for e (results d ! k) (fetched w))\<rparr>] ! j) = Some q"
    if "j < length (results d)" "kp_imdb (results d ! j) = Some q" for j q
    using that by (cases "j = k") (simp_all add: ratings_for_def)
  have nofetch: "\<And>q. kp_imdb (results d ! k) = Some q \<Longrightarrow>
      fetched (snd (show_current_film e True u w)) = fetched w
      \<and> ratings_for e (results d ! k) (fetched w) = q"
    by (simp add: show_current_film_fetched [OF assms] ratings_for_def)
  show ?thesis
    apply (rule exI [of _ "d\<lparr>results := (results d)[k :=
               (results d ! k)\<lparr>kp_imdb := Some (ratings_for e (results d ! k) (fetched w))\<rparr>],
               msg_id := Some i\<rparr>"])
    apply (rule exI [of _ i])
    apply (rule exI [of _ m])
    using kl m keep nofetch by (simp add: ud)
qed

section \<open>Navigation and confirmation\<close>

lemma set_current_index_simps [simp]:
  "fsm (set_current_index u i w) = fsm w"
  "chat (set_current_index u i w) = chat w"
  "next_id (set_current_index u i w) = next_id w"
  "fetched (set_current_index u i w) = fetched w"
  by (simp_all add: set_current_index_def split: option.splits)

lemma set_current_index_session:
  "user_data w u = Some d \<Longrightarrow>
   user_data (set_current_index u i w) = (user_data w)(u \<mapsto> d\<lparr>current_index := i\<rparr>)"
  by (simp add: set_current_index_def)

lemma drop_list_message_simps [simp]:
  "fsm (drop_list_message u w) = fsm w"
  "next_id (drop_list_message u w) = next_id w"
  "fetched (drop_list_message u w) = fetched w"
  by (simp_all add: drop_list_message_def Let_def split: option.splits)

lemma drop_list_message_session:
  assumes "user_data w u = Some d"
  shows "user_data (drop_list_message u w)
       = (user_data w)(u \<mapsto> d\<lparr>list_msg_id :=
            (if truthy_id (list_msg_id d) then None else list_msg_id d)\<rparr>)"
proof (cases "truthy_id (list_msg_id d)")
  case True
  with assms show ?thesis by (simp add: drop_list_message_def Let_def)
next
  case False
  have "d\<lparr>list_msg_id := list_msg_id d\<rparr> = d" by (cases d) simp
  with False assms show ?thesis by (simp add: drop_list_message_def map_upd_triv)
qed


lemma show_current_film_index:
  assumes "user_data w u = Some d"
  shows "\<exists>d'. user_data (snd (show_current_film e True u w)) u = Some d'
     \<and> current_index d' = current_index d \<and> length (results d') = length (results d)
     \<and> list_msg_id d' = list_msg_id d \<and> query d' = query d
     \<and> (fst (show_current_film e True u w) = Some IndexError
          \<longleftrightarrow> py_index (results d) (current_index d) = None)
     \<and> (fst (show_current_film e True u w) = None
          \<longleftrightarrow> py_index (results d) (current_index d) \<noteq> None)"
proof (cases "py_index (results d) (current_index d)")
  case None
  with assms show ?thesis by (simp add: show_current_film_raises)
next
  case (Some k)
  from show_current_film_effect [OF assms Some, of e] show ?thesis
    using Some by auto
qed

lemma confirm_yes_effect:
  assumes "cb_has_message c" "user_data w (cb_from c) = Some d"
  shows "\<exists>d'. user_data (snd (confirm_yes e c i w)) (cb_from c) = Some d'
     \<and> current_index d' = i
     \<and> length (results d') = length (results d)
     \<and> (fst (confirm_yes e c i w) = Some IndexError \<longleftrightarrow> py_index (results d) i = None)"
proof -
  let ?u = "cb_from c"
  let ?w4 = "(set_current_index ?u i (safe_delete (drop_list_message ?u w)
               (data_confirm_msg_id (fsm w ?u))))
             \<lparr>fsm := (fsm w)(?u := fsm_clear)\<rparr>"
  let ?d4 = "d\<lparr>list_msg_id := (if truthy_id (list_msg_id d) then None else list_msg_id d),
               current_index := i\<rparr>"
  have ud4: "user_data ?w4 ?u = Some ?d4"
    using assms(2) by (simp add: set_current_index_session drop_list_message_session)
  have eq: "confirm_yes e c i w =
      (case show_current_film e True ?u ?w4 of
         (Some x, w5) \<Rightarrow> (Some x, w5)
       | (None, w5) \<Rightarrow> (None, w5\<lparr>toasts := toasts w5 @ [Ack]\<rparr>))"
    using assms by (simp add: confirm_yes_def Let_def)
  from show_current_film_index [OF ud4, of e] obtain d' where
    d': "user_data (snd (show_current_film e True ?u ?w4)) ?u = Some d'"
      "current_index d' = i" "length (results d') = length (results d)"
      "fst (show_current_film e True ?u ?w4) = Some IndexError
          \<longleftrightarrow> py_index (results d) i = None"
      "fst (show_current_film e True ?u ?w4) = None
          \<longleftrightarrow> py_index (results d) i \<noteq> None"
    by auto
  show ?thesis
    using d' unfolding eq
    by (cases "show_current_film e True ?u ?w4") (auto split: option.splits)
qed

text \<open>
  C3. For a user with a session and a callback that carries a message, \<open>confirm_yes\<close>
  stores the index of the button's payload as \<open>current_index\<close>, whatever the integer is and
  however many records the session has; when the index is no position of the results, the
  display that follows raises IndexError and the index stays stored.
\<close>

theorem confirm_yes_takes_any_index:
  assumes "cb_has_message c" "user_data w (cb_from c) = Some d"
  shows "\<exists>d'. user_data (snd (confirm_yes e c i w)) (cb_from c) = Some d'
     \<and> current_index d' = i
     \<and> length (results d') = length (results d)
     \<and> (fst (confirm_yes e c i w) = Some IndexError \<longleftrightarrow> py_index (results d) i = None)"
  using assms by (rule confirm_yes_effect)

text \<open>
  What keeps the index within the results is the keyboard, which offers "prev" and "next"
  only where the step stays inside, and the range check of \<open>handle_number_choice\<close>. A
  step that comes with its guard satisfied keeps the index in bounds; the handlers
  themselves do not look.
\<close>

lemma show_list_variants_session:
  assumes "user_data w u = Some d"
  shows "user_data (snd (show_list_variants e u w))
       = (user_data w)(u \<mapsto> d\<lparr>list_msg_id := Some (next_id w)\<rparr>)"
  using assms by (simp add: show_list_variants_def Let_def split_def)

lemma in_bounds_index: "in_bounds d \<Longrightarrow> py_index (results d) (current_index d) \<noteq> None"
  by (simp add: in_bounds_def py_index_def)

lemma show_current_film_in_bounds:
  assumes "user_data w u = Some d" "in_bounds d"
  shows "\<exists>d'. user_data (snd (show_current_film e True u w)) u = Some d' \<and> in_bounds d'
     \<and> current_index d' = current_index d \<and> length (results d') = length (results d)"
  using show_current_film_index [OF assms(1), of e] assms(2)
  by (auto simp: in_bounds_def)

lemma handle_navigation_guarded_in_bounds:
  assumes ud: "user_data w (cb_from c) = Some d" and b: "in_bounds d"
    and p: "action = ''prev'' \<Longrightarrow> 0 < current_index d"
    and n: "action = ''next'' \<Longrightarrow> current_index d < int (length (results d)) - 1"
  shows "\<exists>d'. user_data (snd (handle_navigation e c action w)) (cb_from c) = Some d'
     \<and> in_bounds d' \<and> length (results d') = length (results d)"
proof -
  let ?u = "cb_from c"
  consider (no_msg) "\<not> cb_has_message c"
    | (at_prev) "cb_has_message c" "action = ''prev''"
    | (at_next) "cb_has_message c" "action = ''next''"
    | (at_list) "cb_has_message c" "action = ''list''"
    | (at_close) "cb_has_message c" "action = ''close_list''"
    | (at_other) "cb_has_message c" "action \<noteq> ''prev''" "action \<noteq> ''next''"
        "action \<noteq> ''list''" "action \<noteq> ''close_list''"
    by blast
  then show ?thesis
  proof cases
    case no_msg
    with ud b show ?thesis by (simp add: handle_navigation_def)
  next
    case at_prev
    let ?w1 = "set_current_index ?u (current_index d - 1) w"
    have ud1: "user_data ?w1 ?u = Some (d\<lparr>current_index := current_index d - 1\<rparr>)"
      using ud by (simp add: set_current_index_session)
    have "in_bounds (d\<lparr>current_index := current_index d - 1\<rparr>)"
      using b p at_prev(2) by (simp add: in_bounds_def)
    from show_current_film_in_bounds [OF ud1 this, of e] show ?thesis
      using at_prev ud by (auto simp add: handle_navigation_def Let_def)
  next
    case at_next
    let ?w1 = "set_current_index ?u (current_index d + 1) w"
    have ud1: "user_data ?w1 ?u = Some (d\<lparr>current_index := current_index d + 1\<rparr>)"
      using ud by (simp add: set_current_index_session)
    have "in_bounds (d\<lparr>current_index := current_index d + 1\<rparr>)"
      using b n at_next(2) by (simp add: in_bounds_def)
    from show_current_film_in_bounds [OF ud1 this, of e] show ?thesis
      using at_next ud by (auto simp add: handle_navigation_def Let_def)
  next
    case at_list
    have "user_data (w\<lparr>toasts := toasts w @ [Ack]\<rparr>) ?u = Some d"
      using ud by simp
    from show_list_variants_session [OF this, of e] show ?thesis
      using at_list ud b by (auto simp add: handle_navigation_def Let_def in_bounds_def)
  next
    case at_close
    have "user_data (w\<lparr>toasts := toasts w @ [Ack]\<rparr>) ?u = Some d"
      using ud by simp
    from drop_list_message_session [OF this] show ?thesis
      using at_close ud b by (auto simp add: handle_navigation_def Let_def in_bounds_def)
  next
    case at_other
    from show_current_film_in_bounds [OF ud b, of e] show ?thesis
      using at_other ud by (auto simp add: handle_navigation_def Let_def)
  qed
qed

lemma confirm_yes_guarded_in_bounds:
  assumes "cb_has_message c" "user_data w (cb_from c) = Some d"
    "0 \<le> i" "i < int (length (results d))"
  shows "\<exists>d'. user_data (snd (confirm_yes e c i w)) (cb_from c) = Some d' \<and> in_bounds d'"
  using confirm_yes_effect [OF assms(1,2), of e i] assms(3,4)
  by (auto simp: in_bounds_def)

lemma confirm_no_session [simp]: "user_data (confirm_no c w) = user_data w"
  by (simp add: confirm_no_def Let_def)

lemma waiting_for_number_message_session [simp]:
  "user_data (waiting_for_number_message e u t w) = user_data w"
  by (auto simp: waiting_for_number_message_def handle_number_choice_def handle_invalid_def
      Let_def split_def split: option.splits)

section \<open>Choosing by number\<close>

text \<open>
  Every text that passes the filter of \<open>handle_number_choice\<close> is read by \<open>int\<close> as a
  natural number: the branch for ValueError (line 673) is never taken.
\<close>

lemma digit_no_space: "is_digit c \<Longrightarrow> \<not> py_isspace c"
  by (auto simp: is_digit_def py_isspace_def)

lemma digit_no_sign: "is_digit c \<Longrightarrow> c \<noteq> CHR ''-'' \<and> c \<noteq> CHR ''+''"
  by (auto simp: is_digit_def)

lemma dropWhile_digits:
  "ds \<noteq> [] \<Longrightarrow> list_all is_digit ds \<Longrightarrow> dropWhile py_isspace ds = ds"
  by (cases ds) (auto simp: digit_no_space)

lemma digits_strip:
  assumes "ds \<noteq> []" "list_all is_digit ds"
  shows "py_strip ds = ds" "py_strip (ds @ [CHR 0x0A]) = ds"
proof -
  have r: "rev ds \<noteq> []" "list_all is_digit (rev ds)"
    using assms by (simp_all add: list_all_iff)
  have lf: "py_isspace (CHR 0x0A)"
    by (simp add: py_isspace_def)
  show "py_strip ds = ds"
    using assms by (simp add: py_strip_def dropWhile_digits [OF r] dropWhile_digits)
  have "dropWhile py_isspace (ds @ [CHR 0x0A]) = ds @ [CHR 0x0A]"
    using assms by (cases ds) (auto simp: digit_no_space)
  then show "py_strip (ds @ [CHR 0x0A]) = ds"
    using lf by (simp add: py_strip_def dropWhile_digits [OF r])
qed

lemma py_int_digits:
  assumes "ds \<noteq> []" "list_all is_digit ds"
  shows "py_int ds = Some (int (digits_value ds))"
    "py_int (ds @ [CHR 0x0A]) = Some (int (digits_value ds))"
proof -
  have "is_digit (hd ds)" using assms by (cases ds) auto
  then have "hd ds \<noteq> CHR ''-''" "hd ds \<noteq> CHR ''+''"
    using digit_no_sign by blast+
  then show "py_int ds = Some (int (digits_value ds))"
    "py_int (ds @ [CHR 0x0A]) = Some (int (digits_value ds))"
    using assms by (simp_all add: py_int_def digits_strip Let_def)
qed

lemma number_filter_py_int:
  assumes "number_filter t"
  shows "\<exists>n. py_int t = Some n \<and> 0 \<le> n"
proof (cases "t \<noteq> [] \<and> last t = CHR 0x0A")
  case True
  then have t: "t = butlast t @ [CHR 0x0A]"
    by (metis append_butlast_last_id)
  from assms True have "butlast t \<noteq> []" "list_all is_digit (butlast t)"
    by (simp_all add: number_filter_def Let_def)
  from py_int_digits(2) [OF this] t show ?thesis
    by (metis of_nat_0_le_iff)
next
  case False
  with assms have "t \<noteq> []" "list_all is_digit t"
    by (auto simp: number_filter_def Let_def)
  from py_int_digits(1) [OF this] show ?thesis by simp
qed

lemma handle_invalid_simps [simp]:
  "user_data (handle_invalid w) = user_data w"
  "fsm (handle_invalid w) = fsm w"
  "chat (handle_invalid w) (next_id w) = Some (text_message (Notice Only_number_of_list) [])"
  by (simp_all add: handle_invalid_def)









section \<open>A run of the bot\<close>

lemma stale_world_session:
  "map_option (\<lambda>d. (length (results d), current_index d)) (user_data stale_world 7) = Some (2, 0)"
  by code_simp

lemma stale_world_button:
  "map_option keyboard (chat stale_world 4)
     = Some [Callback_button (ConfirmCallback ''yes'' 4),
             Callback_button (ConfirmCallback ''no'' 4)]"
  by code_simp

theorem confirm_yes_takes_any_index_witness:
  "cb_has_message tap
   \<and> map_option (\<lambda>d. length (results d)) (user_data stale_world (cb_from tap)) = Some 2
   \<and> map_option (\<lambda>d. (length (results d), current_index d))
        (user_data (snd (confirm_yes demo_env tap 4 stale_world)) (cb_from tap)) = Some (2, 4)
   \<and> fst (confirm_yes demo_env tap 4 stale_world) = Some IndexError"
proof -
  have c: "cb_has_message tap" and u: "cb_from tap = 7"
    by (simp_all add: tap_def)
  from stale_world_session obtain d where
    d: "user_data stale_world (cb_from tap) = Some d" "length (results d) = 2"
    unfolding u by auto
  have "py_index (results d) 4 = None"
    using d(2) by (simp add: py_index_def)
  with confirm_yes_takes_any_index [OF c d(1), of demo_env 4] d c
  show ?thesis by auto
qed












lemma next_world_session:
  "map_option (\<lambda>d. (length (results d), current_index d, kp_imdb (results d ! 1)))
      (user_data next_world 7)
   = Some (5, 1, Some (''8.5'', ''8.7''))"
  by code_simp

lemma next_world_fetched:
  "fetched matrix_world = [''https://zona.example/movies/matrix'']
   \<and> fetched next_world
       = [''https://zona.example/movies/matrix'', ''https://zona.example/movies/matrix'']"
  by code_simp

theorem displayed_ratings_cached_witness:
  "map_option (\<lambda>d. (length (results d), current_index d, kp_imdb (results d ! 1)))
      (user_data next_world 7) = Some (5, 1, Some (''8.5'', ''8.7''))
   \<and> fetched (snd (show_current_film down_env True 7 next_world)) = fetched next_world
   \<and> map_option (\<lambda>d. kp_imdb (results d ! 1))
        (user_data (snd (show_current_film down_env True 7 next_world)) 7)
       = Some (Some (''8.5'', ''8.7''))"
proof -
  from next_world_session obtain d where
    d: "user_data next_world 7 = Some d" "length (results d) = 5" "current_index d = 1"
      "kp_imdb (results d ! 1) = Some (''8.5'', ''8.7'')"
    by auto
  have k: "py_index (results d) (current_index d) = Some 1"
    using d(2,3) by (simp add: py_index_def)
  from displayed_ratings_cached [OF d(1) k, of down_env] d(4) next_world_session
  show ?thesis by auto
qed

lemma next_world_keyboard:
  "map_option keyboard (chat next_world 2)
     = Some [Callback_button (NavCallback ''prev''),
             Url_button (Some ''https://zona.example/movies/matrix''),
             Callback_button (NavCallback ''next''),
             Callback_button (NavCallback ''list'')]"
  by code_simp

text \<open>
  C2, evaluated on the code. The claim is that "prev" at the first record and "next" at the
  last one change nothing. \<open>handle_navigation\<close> has no such guard (lines 556 and 559): with
  the first of five records on display "prev" stores \<open>-1\<close> and shows the last record, and
  with the last of two records on display "next" stores 2 and the display raises
  IndexError.
\<close>

theorem prev_at_first_record_changes_session:
  "map_option (\<lambda>d. (length (results d), current_index d)) (user_data matrix_world 7)
     = Some (5, 0)
   \<and> (case handle_navigation demo_env tap ''prev'' matrix_world of
        (x, w) \<Rightarrow> (x, map_option current_index (user_data w 7)))
     = (None, Some (- 1))
   \<and> map_option (\<lambda>d. (length (results d), current_index d))
        (user_data (snd (handle_navigation demo_env tap ''next'' dune_world)) 7)
     = Some (2, 1)
   \<and> (case handle_navigation demo_env tap ''next''
             (snd (handle_navigation demo_env tap ''next'' dune_world)) of
        (x, w) \<Rightarrow> (x, map_option current_index (user_data w 7)))
     = (Some IndexError, Some 2)"
  by code_simp

text \<open>
  C1, evaluated on the code. Two "prev" from the second record (the button is on that
  keyboard, and both presses can be sent before the keyboard is replaced), two "next" from
  the first of two records, and the "yes" button of a replaced session each leave
  \<open>current_index\<close> outside \<open>0 \<le> current_index < len(results)\<close>.
\<close>

theorem transitions_leave_bounds:
  "map_option in_bounds (user_data next_world 7) = Some True
   \<and> map_option in_bounds
        (user_data (snd (handle_navigation demo_env tap ''prev''
           (snd (handle_navigation demo_env tap ''prev'' next_world)))) 7) = Some False
   \<and> map_option in_bounds (user_data dune_world 7) = Some True
   \<and> map_option in_bounds
        (user_data (snd (handle_navigation demo_env tap ''next''
           (snd (handle_navigation demo_env tap ''next'' dune_world)))) 7) = Some False
   \<and> map_option in_bounds (user_data stale_world 7) = Some True
   \<and> map_option in_bounds
        (user_data (snd (confirm_yes demo_env tap 4 stale_world)) 7) = Some False"
  by code_simp

end
